theory Spec2Isabelle
  imports Complex_Main "HOL-Library.Sublist"
begin

section \<open>Strings, numbers and errors of the JavaScript runtime\<close>

text \<open>
  A JavaScript string is modelled as a \<^typ>\<open>string\<close>: one \<^typ>\<open>char\<close> stands for one
  UTF-16 code unit of the Latin-1 range, so \<^const>\<open>length\<close> is \<open>.length\<close> and
  \<^const>\<open>take\<close> is \<open>.substring(0, n)\<close>. An optional property (\<open>x?: T\<close>) is an
  \<^typ>\<open>'a option\<close> with \<^const>\<open>None\<close> for \<open>undefined\<close>. A thrown exception is the
  left injection of a sum; the state reached before the throw is kept.
\<close>

datatype js_error =
    Error string
  | TypeError string
  | SyntaxError string
  | SystemError string

text \<open>The class \<open>\s\<close> of regular expressions and of \<open>String.prototype.trim\<close>.\<close>

definition isSpace :: "char \<Rightarrow> bool" where
  "isSpace c = (of_char c \<in> {9, 10, 11, 12, 13, 32, 160 :: nat})"

text \<open>\<open>text.split(/\s+/)\<close>: the pieces between maximal runs of white space.\<close>

function splitWs :: "string \<Rightarrow> string list" where
  "splitWs s =
     (let w = takeWhile (\<lambda>c. \<not> isSpace c) s;
          r = dropWhile (\<lambda>c. \<not> isSpace c) s
      in if r = [] then [w] else w # splitWs (dropWhile isSpace r))"
  by pat_completeness auto
termination
proof (relation "measure length")
  show "wf (measure length)" by simp
next
  fix s :: string and w r
  assume r: "r = dropWhile (\<lambda>c. \<not> isSpace c) s" and ne: "r \<noteq> []"
  from ne r have "isSpace (hd r)"
    using hd_dropWhile[of "\<lambda>c. \<not> isSpace c" s] by auto
  with ne have "length (dropWhile isSpace r) < length r"
    by (cases r) (auto simp: le_imp_less_Suc length_dropWhile_le)
  moreover have "length r \<le> length s"
    by (simp add: r length_dropWhile_le)
  ultimately show "(dropWhile isSpace r, s) \<in> measure length" by simp
qed

declare splitWs.simps [simp del]

text \<open>\<open>s.split(c)\<close> for a one-character separator, and \<open>xs.join(sep)\<close>.\<close>

fun splitOn :: "char \<Rightarrow> string \<Rightarrow> string list" where
  "splitOn c [] = [[]]"
| "splitOn c (x # xs) =
     (if x = c then [] # splitOn c xs
      else (case splitOn c xs of [] \<Rightarrow> [[x]] | w # ws \<Rightarrow> (x # w) # ws))"

fun joinWith :: "string \<Rightarrow> string list \<Rightarrow> string" where
  "joinWith sep [] = []"
| "joinWith sep [x] = x"
| "joinWith sep (x # y # ys) = x @ sep @ joinWith sep (y # ys)"

definition jsTrim :: "string \<Rightarrow> string" where
  "jsTrim s = rev (dropWhile isSpace (rev (dropWhile isSpace s)))"

text \<open>\<open>n.toString()\<close> for a natural number, and \<open>s.padStart(n, c)\<close>.\<close>

definition digitChar :: "nat \<Rightarrow> char" where
  "digitChar d = char_of (48 + d)"

function showNat :: "nat \<Rightarrow> string" where
  "showNat n = (if n < 10 then [digitChar n] else showNat (n div 10) @ [digitChar (n mod 10)])"
  by pat_completeness auto
termination
  by (relation "measure id") auto

declare showNat.simps [simp del]

definition padStart :: "nat \<Rightarrow> char \<Rightarrow> string \<Rightarrow> string" where
  "padStart n c s = replicate (n - length s) c @ s"

text \<open>A template literal prints an undefined value as the word \<open>undefined\<close>.\<close>

definition tmpl :: "string option \<Rightarrow> string" where
  "tmpl k = (case k of None \<Rightarrow> ''undefined'' | Some s \<Rightarrow> s)"

section \<open>The estimated duration of a turn (text-to-speech.ts)\<close>

definition estimateAudioDuration :: "string \<Rightarrow> int" where
  "estimateAudioDuration text =
     (let words = length (splitWs text);
          wordsPerSecond = (2.5 :: rat)
      in \<lceil>of_nat words / wordsPerSecond\<rceil>)"

section \<open>The environment and the observable state\<close>

text \<open>
  What the program cannot decide is a field of the environment: the two credentials of
  \<open>process.env\<close>, the working directory, the answer of the chat-completion service to the
  \<open>n\<close>-th request and of the speech service to the \<open>n\<close>-th request, and the \<open>ffmpeg\<close>
  executable, and the digest \<open>crypto.createHash('sha256').update(s).digest('hex')\<close> of
  Node's \<open>crypto\<close> module, which is not code of this program. The text of a prompt only travels to the chat-completion service, whose
  answer is a field of the environment, so prompts are not built here; the requests are
  counted. A request to the speech service is logged with its text and voice.
\<close>

type_synonym bytes = string

datatype fsnode = File bytes | Dir

datatype chat_body =
    NotJson
  | ChatJson "string option"

datatype chat_reply =
    ChatRejected string
  | ChatResponse nat string chat_body

datatype tts_reply =
    TtsRejected string
  | TtsResponse nat bytes

datatype ffmpeg_exit =
    ExitFailure string
  | ExitOk "bytes option"

record Voice =
  voice_id :: string
  voice_name :: string
  voiceId :: string
  stability :: "rat option"
  similarityBoost :: "rat option"

record tts_request =
  req_text :: string
  req_voiceId :: string
  req_stability :: rat
  req_similarity_boost :: rat

record env =
  cwd :: string
  XAI_API_KEY :: "string option"
  ELEVENLABS_API_KEY :: "string option"
  chatFetch :: "nat \<Rightarrow> chat_reply"
  ttsFetch :: "nat \<Rightarrow> tts_reply"
  ffmpegAvailable :: bool
  ffmpegRun :: "fsnode option list \<Rightarrow> ffmpeg_exit"
  sha256hex :: "string \<Rightarrow> string"

datatype sse_event = SseEvent string "string list"

record world =
  fs :: "string \<Rightarrow> fsnode option"
  chatCalls :: nat
  ttsLog :: "tts_request list"
  stream :: "sse_event list"
  streamClosed :: bool

type_synonym 'a io = "world \<Rightarrow> (js_error + 'a) \<times> world"

text \<open>\<open>response.ok\<close> of the fetch API.\<close>

definition response_ok :: "nat \<Rightarrow> bool" where
  "response_ok status = (200 \<le> status \<and> status \<le> 299)"

section \<open>The file system (module fs)\<close>

definition existsSync :: "world \<Rightarrow> string \<Rightarrow> bool" where
  "existsSync w p = (fs w p \<noteq> None)"

definition mkdirSync :: "string \<Rightarrow> world \<Rightarrow> world" where
  "mkdirSync p w = w\<lparr>fs := (fs w)(p \<mapsto> Dir)\<rparr>"

definition writeFileSync :: "string \<Rightarrow> bytes \<Rightarrow> unit io" where
  "writeFileSync p b w =
     (case fs w p of
        Some Dir \<Rightarrow> (Inl (SystemError ''EISDIR''), w)
      | _ \<Rightarrow> (Inr (), w\<lparr>fs := (fs w)(p \<mapsto> File b)\<rparr>))"

definition readFileSync :: "string \<Rightarrow> bytes io" where
  "readFileSync p w =
     (case fs w p of
        None \<Rightarrow> (Inl (SystemError ''ENOENT''), w)
      | Some Dir \<Rightarrow> (Inl (SystemError ''EISDIR''), w)
      | Some (File b) \<Rightarrow> (Inr b, w))"

definition unlinkSync :: "string \<Rightarrow> world \<Rightarrow> world" where
  "unlinkSync p w = w\<lparr>fs := (fs w)(p := None)\<rparr>"

text \<open>\<open>fs.rmSync(p, { recursive: true })\<close>: the entry and everything below it.\<close>

definition rmSync :: "string \<Rightarrow> unit io" where
  "rmSync p w =
     (if fs w p = None then (Inl (SystemError ''ENOENT''), w)
      else (Inr (), w\<lparr>fs := (\<lambda>q. if q = p \<or> prefix (p @ ''/'') q then None else fs w q)\<rparr>))"

section \<open>Text generation (text-generator.ts)\<close>

definition generateText :: "env \<Rightarrow> string io" where
  "generateText e w =
     (case XAI_API_KEY e of
        None \<Rightarrow> (Inl (Error ''XAI_API_KEY is not configured''), w)
      | Some apiKey \<Rightarrow>
          if apiKey = [] then (Inl (Error ''XAI_API_KEY is not configured''), w)
          else
            (let w' = w\<lparr>chatCalls := Suc (chatCalls w)\<rparr> in
             case chatFetch e (chatCalls w) of
               ChatRejected msg \<Rightarrow> (Inl (TypeError msg), w')
             | ChatResponse status errorText data \<Rightarrow>
                 if \<not> response_ok status then
                   (Inl (Error (''Grok API error: '' @ showNat status @ '' - '' @ errorText)), w')
                 else
                   (case data of
                      NotJson \<Rightarrow> (Inl (SyntaxError ''Unexpected token''), w')
                    | ChatJson None \<Rightarrow> (Inl (Error ''Invalid response from Grok API''), w')
                    | ChatJson (Some content) \<Rightarrow>
                        if content = [] then (Inl (Error ''Invalid response from Grok API''), w')
                        else (Inr content, w'))))"

section \<open>POSIX paths (module path)\<close>

text \<open>
  The functions of Node's \<open>path\<close> module that the program calls, on POSIX paths:
  a path is cut at its slashes; \<open>normalize\<close> drops empty and \<open>.\<close> segments and lets
  \<open>..\<close> remove the segment before it (above the root it is dropped, above a relative
  start it is kept).
\<close>

fun normalizeSegs :: "bool \<Rightarrow> string list \<Rightarrow> string list \<Rightarrow> string list" where
  "normalizeSegs allowAboveRoot res [] = res"
| "normalizeSegs allowAboveRoot res (s # ss) =
     (if s = [] \<or> s = ''.'' then normalizeSegs allowAboveRoot res ss
      else if s = ''..'' then
        (if res \<noteq> [] \<and> last res \<noteq> ''..'' then normalizeSegs allowAboveRoot (butlast res) ss
         else if allowAboveRoot then normalizeSegs allowAboveRoot (res @ [''..'']) ss
         else normalizeSegs allowAboveRoot res ss)
      else normalizeSegs allowAboveRoot (res @ [s]) ss)"

definition normalizeString :: "string \<Rightarrow> bool \<Rightarrow> string" where
  "normalizeString path allowAboveRoot =
     joinWith ''/'' (normalizeSegs allowAboveRoot [] (splitOn CHR ''/'' path))"

definition path_normalize :: "string \<Rightarrow> string" where
  "path_normalize path =
     (if path = [] then ''.''
      else
        (let isAbsolute = (hd path = CHR ''/'');
             trailingSeparator = (last path = CHR ''/'');
             p = normalizeString path (\<not> isAbsolute)
         in if p = [] then (if isAbsolute then ''/'' else if trailingSeparator then ''./'' else ''.'')
            else
              (let p' = (if trailingSeparator then p @ ''/'' else p)
               in if isAbsolute then CHR ''/'' # p' else p')))"

definition path_join :: "string \<Rightarrow> string \<Rightarrow> string" where
  "path_join a b =
     (if a = [] \<and> b = [] then ''.''
      else if a = [] then path_normalize b
      else if b = [] then path_normalize a
      else path_normalize (a @ ''/'' @ b))"



definition path_dirname :: "string \<Rightarrow> string" where
  "path_dirname path =
     (if path = [] then ''.''
      else
        (let hasRoot = (hd path = CHR ''/'');
             a = dropWhile (\<lambda>c. c = CHR ''/'') (rev (tl path));
             b = dropWhile (\<lambda>c. c \<noteq> CHR ''/'') a
         in case b of
              [] \<Rightarrow> if hasRoot then ''/'' else ''.''
            | _ # c \<Rightarrow> if hasRoot \<and> c = [] then ''//'' else hd path # rev c))"



text \<open>\<open>const AUDIO_DIR = path.join(process.cwd(), 'generated-audio')\<close>, in both generators.\<close>

definition AUDIO_DIR :: "env \<Rightarrow> string" where
  "AUDIO_DIR e = path_join (cwd e) ''generated-audio''"


section \<open>Speech synthesis (text-to-speech.ts, config.ts)\<close>

definition voices_john :: Voice where
  "voices_john = \<lparr>voice_id = ''john'', voice_name = ''John'', voiceId = ''n1PvBOwxb8X6m7tahp2h'',
     stability = Some 0.5, similarityBoost = Some 0.75\<rparr>"

definition voices_sadie :: Voice where
  "voices_sadie = \<lparr>voice_id = ''sadie'', voice_name = ''Sadie'', voiceId = ''56bWURjYFHyYyVf490Dp'',
     stability = Some 0.6, similarityBoost = Some 0.75\<rparr>"

definition synthesizeSpeech :: "env \<Rightarrow> string \<Rightarrow> Voice \<Rightarrow> string \<Rightarrow> string io" where
  "synthesizeSpeech e text voice outputPath w =
     (case ELEVENLABS_API_KEY e of
        None \<Rightarrow> (Inl (Error ''ELEVENLABS_API_KEY is not configured''), w)
      | Some apiKey \<Rightarrow>
          if apiKey = [] then (Inl (Error ''ELEVENLABS_API_KEY is not configured''), w)
          else
            (let outputDir = path_dirname outputPath;
                 w1 = (if \<not> existsSync w outputDir then mkdirSync outputDir w else w);
                 request = \<lparr>req_text = text, req_voiceId = voiceId voice,
                   req_stability = (case stability voice of None \<Rightarrow> 0.5 | Some x \<Rightarrow> x),
                   req_similarity_boost = (case similarityBoost voice of None \<Rightarrow> 0.75 | Some x \<Rightarrow> x)\<rparr>;
                 w2 = w1\<lparr>ttsLog := ttsLog w1 @ [request]\<rparr>
             in case ttsFetch e (length (ttsLog w1)) of
                  TtsRejected msg \<Rightarrow> (Inl (TypeError msg), w2)
                | TtsResponse status audioBuffer \<Rightarrow>
                    if \<not> response_ok status then
                      (Inl (Error (''ElevenLabs API error: '' @ showNat status @ '' - '' @ audioBuffer)), w2)
                    else if length audioBuffer = 0 then
                      (Inl (Error ''ElevenLabs returned empty audio buffer''), w2)
                    else
                      (case writeFileSync outputPath audioBuffer w2 of
                         (Inl err, w3) \<Rightarrow> (Inl err, w3)
                       | (Inr _, w3) \<Rightarrow> (Inr outputPath, w3))))"

definition synthesizeDialogueTurn :: "env \<Rightarrow> string \<Rightarrow> string option \<Rightarrow> string \<Rightarrow> nat \<Rightarrow> string io" where
  "synthesizeDialogueTurn e text speakerId outputDir turnIndex w =
     (let voice = (if speakerId = Some ''john'' \<or> speakerId = Some ''privateEye'' \<or> speakerId = Some ''host1''
                   then voices_john else voices_sadie);
          outputFileName = ''turn-'' @ padStart 3 CHR ''0'' (showNat turnIndex) @ ''-'' @ tmpl speakerId @ ''.mp3'';
          outputPath = path_join outputDir outputFileName;
          maxChunkLength = 5000
      in if length text \<le> maxChunkLength then synthesizeSpeech e text voice outputPath w
         else
           (let truncatedText = take maxChunkLength text
            in synthesizeSpeech e truncatedText voice outputPath w))"

section \<open>Requests (types.ts) and the content-derived identifiers\<close>

record DocumentInput =
  documentId :: "string option"
  url :: "string option"
  names :: "string list option"
  dates :: "string list option"
  places :: "string list option"

record Article =
  art_id :: "string option"
  art_title :: "string option"
  art_url :: "string option"

record PodcastRequest =
  articles :: "Article list"
  selectedHosts :: "string list option"
  targetLengthSeconds :: "rat option"

text \<open>A string is truthy when it is defined and not empty.\<close>

definition truthy :: "string option \<Rightarrow> bool" where
  "truthy s = (case s of None \<Rightarrow> False | Some x \<Rightarrow> x \<noteq> [])"

text \<open>\<open>d.documentId || d.url || 'doc'\<close> and \<open>a.url || a.title || a.id\<close>; \<open>join\<close> prints an
  undefined element as the empty string.\<close>

definition documentKey :: "DocumentInput \<Rightarrow> string" where
  "documentKey d =
     (if truthy (documentId d) then the (documentId d)
      else if truthy (url d) then the (url d) else ''doc'')"

definition articleKey :: "Article \<Rightarrow> string" where
  "articleKey a =
     (if truthy (art_url a) then the (art_url a)
      else if truthy (art_title a) then the (art_title a)
      else (case art_id a of None \<Rightarrow> [] | Some i \<Rightarrow> i))"

text \<open>The string that is hashed (\<open>const content = ...\<close>), and the identifier: the first
  16 digits of its digest.\<close>

definition reportContent :: "DocumentInput list \<Rightarrow> string \<Rightarrow> string" where
  "reportContent documents investigation = joinWith '','' (map documentKey documents) @ investigation"

definition podcastContent :: "Article list \<Rightarrow> string list \<Rightarrow> string" where
  "podcastContent arts hosts = joinWith '','' (map articleKey arts) @ joinWith '','' hosts"

definition generateReportId :: "env \<Rightarrow> DocumentInput list \<Rightarrow> string \<Rightarrow> string" where
  "generateReportId e documents investigation =
     (let content = reportContent documents investigation
      in take 16 (sha256hex e content))"

definition generatePodcastId :: "env \<Rightarrow> Article list \<Rightarrow> string list \<Rightarrow> string" where
  "generatePodcastId e arts hosts =
     (let content = podcastContent arts hosts
      in take 16 (sha256hex e content))"

section \<open>Grouping related documents (investigative-report.ts)\<close>

text \<open>The \<open>Map\<close> of unique documents keeps the first document of every truthy identifier,
  in insertion order; the set \<open>used\<close> holds identifiers.\<close>

definition uniqueDocs :: "DocumentInput list \<Rightarrow> (string \<times> DocumentInput) list" where
  "uniqueDocs documents =
     foldl (\<lambda>m doc. if truthy (documentId doc) \<and> the (documentId doc) \<notin> fst ` set m
                     then m @ [(the (documentId doc), doc)] else m) [] documents"

definition someIncluded :: "string list option \<Rightarrow> string list option \<Rightarrow> bool" where
  "someIncluded xs ys =
     (case xs of
        None \<Rightarrow> False
      | Some l \<Rightarrow> list_ex (\<lambda>n. case ys of None \<Rightarrow> False | Some r \<Rightarrow> List.member r n) l)"

definition hasOverlap :: "DocumentInput \<Rightarrow> DocumentInput \<Rightarrow> bool" where
  "hasOverlap doc otherDoc =
     (someIncluded (names doc) (names otherDoc)
      \<or> someIncluded (places doc) (places otherDoc)
      \<or> someIncluded (dates doc) (dates otherDoc))"

fun groupInner :: "DocumentInput \<Rightarrow> DocumentInput list
    \<Rightarrow> DocumentInput list \<times> string option set \<Rightarrow> DocumentInput list \<times> string option set" where
  "groupInner doc [] (grp, used) = (grp, used)"
| "groupInner doc (otherDoc # rest) (grp, used) =
     (if documentId otherDoc \<in> used then groupInner doc rest (grp, used)
      else if hasOverlap doc otherDoc
        then groupInner doc rest (grp @ [otherDoc], insert (documentId otherDoc) used)
        else groupInner doc rest (grp, used))"

fun groupOuter :: "DocumentInput list \<Rightarrow> DocumentInput list
    \<Rightarrow> string option set \<times> DocumentInput list list \<Rightarrow> string option set \<times> DocumentInput list list" where
  "groupOuter docArray [] (used, relatedGroups) = (used, relatedGroups)"
| "groupOuter docArray (doc # rest) (used, relatedGroups) =
     (if documentId doc \<in> used then groupOuter docArray rest (used, relatedGroups)
      else
        (case groupInner doc docArray ([doc], insert (documentId doc) used) of
           (grp, used') \<Rightarrow>
             groupOuter docArray rest
               (used', if length grp > 1 then relatedGroups @ [grp] else relatedGroups)))"

definition groupRelatedDocuments :: "DocumentInput list \<Rightarrow> DocumentInput list list \<times> DocumentInput list" where
  "groupRelatedDocuments documents =
     (let docArray = map snd (uniqueDocs documents)
      in case groupOuter docArray docArray ({}, []) of
           (used, relatedGroups) \<Rightarrow>
             (relatedGroups, filter (\<lambda>d. documentId d \<notin> used) docArray))"

section \<open>Serving generated media (api/generate/media/route.ts)\<close>




section \<open>Sequencing of effects\<close>

definition returnIO :: "'a \<Rightarrow> 'a io" where
  "returnIO x w = (Inr x, w)"

definition throwIO :: "js_error \<Rightarrow> 'a io" where
  "throwIO err w = (Inl err, w)"

definition bindIO :: "'a io \<Rightarrow> ('a \<Rightarrow> 'b io) \<Rightarrow> 'b io" where
  "bindIO m f w = (case m w of (Inl err, w') \<Rightarrow> (Inl err, w') | (Inr x, w') \<Rightarrow> f x w')"

definition liftIO :: "(world \<Rightarrow> world) \<Rightarrow> unit io" where
  "liftIO f w = (Inr (), f w)"

text \<open>\<open>error instanceof Error ? error.message : 'Unknown error'\<close>: every exception of the
  model is an instance of \<open>Error\<close>.\<close>

fun errorMessage :: "js_error \<Rightarrow> string" where
  "errorMessage (Error m) = m"
| "errorMessage (TypeError m) = m"
| "errorMessage (SyntaxError m) = m"
| "errorMessage (SystemError m) = m"

section \<open>Comments, titles and tags (text-generator.ts)\<close>

text \<open>
  \<open>s.replace(/\*[^*]+\*/g, '')\<close>, \<open>s.replace(/\[[^\]]+\]/g, '')\<close> and
  \<open>s.replace(/\([^)]+\)/g, '')\<close>: an opening character, at least one character other than
  the closing one, and the closing character are removed, from left to right.
\<close>

function removeDelimited :: "char \<Rightarrow> char \<Rightarrow> string \<Rightarrow> string" where
  "removeDelimited a b [] = []"
| "removeDelimited a b (c # cs) =
     (if c = a \<and> takeWhile (\<lambda>x. x \<noteq> b) cs \<noteq> [] \<and> dropWhile (\<lambda>x. x \<noteq> b) cs \<noteq> []
      then removeDelimited a b (tl (dropWhile (\<lambda>x. x \<noteq> b) cs))
      else c # removeDelimited a b cs)"
  by pat_completeness auto
termination
proof (relation "measure (\<lambda>(a, b, s). length s)")
  show "wf (measure (\<lambda>(a, b, s). length s))" by simp
next
  fix a b c :: char and cs :: string
  have "length (dropWhile (\<lambda>x. x \<noteq> b) cs) \<le> length cs"
    by (rule length_dropWhile_le)
  then have "length (tl (dropWhile (\<lambda>x. x \<noteq> b) cs)) \<le> length cs"
    by simp
  then show "((a, b, tl (dropWhile (\<lambda>x. x \<noteq> b) cs)), (a, b, c # cs)) \<in> measure (\<lambda>(a, b, s). length s)"
    by simp
next
  fix a b c :: char and cs :: string
  show "((a, b, cs), (a, b, c # cs)) \<in> measure (\<lambda>(a, b, s). length s)" by simp
qed

definition generateInvestigatorComment :: "env \<Rightarrow> string io" where
  "generateInvestigatorComment e =
     bindIO (generateText e) (\<lambda>response.
       returnIO (jsTrim (removeDelimited CHR ''('' CHR '')''
                  (removeDelimited CHR ''['' CHR '']''
                    (removeDelimited CHR ''*'' CHR ''*'' response)))))"

definition generateHostComment :: "env \<Rightarrow> string io" where
  "generateHostComment e =
     bindIO (generateText e) (\<lambda>response.
       returnIO (jsTrim (removeDelimited CHR ''['' CHR '']''
                  (removeDelimited CHR ''*'' CHR ''*'' response))))"

definition generateTitle :: "env \<Rightarrow> string io" where
  "generateTitle e =
     bindIO (generateText e) (\<lambda>response.
       returnIO (jsTrim (filter (\<lambda>c. c \<noteq> CHR 0x22 \<and> c \<noteq> CHR 0x27) response)))"

definition generateTags :: "env \<Rightarrow> string list io" where
  "generateTags e =
     bindIO (generateText e) (\<lambda>response.
       returnIO (filter (\<lambda>tag. tag \<noteq> []) (map jsTrim (splitOn CHR '','' response))))"

section \<open>Concatenating the audio of the turns\<close>

text \<open>The list file of the concat demuxer: \<open>file '...'\<close> lines with quotes escaped.\<close>

definition listContent :: "string list \<Rightarrow> string" where
  "listContent inputFiles =
     joinWith [CHR 0x0A]
       (map (\<lambda>f. ''file '' @ [CHR 0x27]
                  @ concat (map (\<lambda>c. if c = CHR 0x27 then [CHR 0x27, CHR 0x5C, CHR 0x27, CHR 0x27] else [c]) f)
                  @ [CHR 0x27]) inputFiles)"

text \<open>\<open>try { ... } finally { if (fs.existsSync(listPath)) fs.unlinkSync(listPath) }\<close>.\<close>

definition finallyUnlink :: "string \<Rightarrow> 'a io \<Rightarrow> 'a io" where
  "finallyUnlink listPath body w =
     (case body w of
        (r, w') \<Rightarrow> (r, if existsSync w' listPath then unlinkSync listPath w' else w'))"

text \<open>Running \<open>ffmpeg -y -f concat -safe 0 -i list -c copy output\<close>: \<open>exec\<close> rejects on a
  non-zero exit; otherwise the executable has written the output, or nothing.\<close>

definition execFfmpeg :: "env \<Rightarrow> string list \<Rightarrow> string \<Rightarrow> unit io" where
  "execFfmpeg e inputFiles outputPath w =
     (case ffmpegRun e (map (fs w) inputFiles) of
        ExitFailure msg \<Rightarrow> (Inl (Error (''Command failed: '' @ msg)), w)
      | ExitOk None \<Rightarrow> (Inr (), w)
      | ExitOk (Some out) \<Rightarrow> (Inr (), w\<lparr>fs := (fs w)(outputPath \<mapsto> File out)\<rparr>))"

definition concatenateWithFfmpeg_report :: "env \<Rightarrow> string list \<Rightarrow> string \<Rightarrow> unit io" where
  "concatenateWithFfmpeg_report e inputFiles outputPath =
     (let listPath = outputPath @ ''.txt''
      in bindIO (writeFileSync listPath (listContent inputFiles)) (\<lambda>_.
           finallyUnlink listPath
             (bindIO (execFfmpeg e inputFiles outputPath) (\<lambda>_ w.
                if existsSync w outputPath then (Inr (), w)
                else (Inl (Error ''ffmpeg did not create output file''), w)))))"

definition concatenateWithFfmpeg_podcast :: "env \<Rightarrow> string list \<Rightarrow> string \<Rightarrow> unit io" where
  "concatenateWithFfmpeg_podcast e inputFiles outputPath =
     (let listPath = outputPath @ ''.txt''
      in bindIO (writeFileSync listPath (listContent inputFiles)) (\<lambda>_.
           finallyUnlink listPath (execFfmpeg e inputFiles outputPath)))"

fun readFiles :: "string list \<Rightarrow> bytes list io" where
  "readFiles [] w = (Inr [], w)"
| "readFiles (f # fs') w =
     (case readFileSync f w of
        (Inl err, w') \<Rightarrow> (Inl err, w')
      | (Inr buffer, w') \<Rightarrow>
          (case readFiles fs' w' of
             (Inl err, w'') \<Rightarrow> (Inl err, w'')
           | (Inr buffers, w'') \<Rightarrow> (Inr (buffer # buffers), w'')))"

definition concatenateSimple :: "string list \<Rightarrow> string \<Rightarrow> unit io" where
  "concatenateSimple inputFiles outputPath =
     bindIO (readFiles inputFiles) (\<lambda>buffers. writeFileSync outputPath (concat buffers))"

definition concatenateAudioFiles_report :: "env \<Rightarrow> string list \<Rightarrow> string \<Rightarrow> unit io" where
  "concatenateAudioFiles_report e inputFiles outputPath w =
     (let existingFiles = filter (existsSync w) inputFiles
      in if length existingFiles = 0 then (Inl (Error ''No audio files to concatenate''), w)
         else if ffmpegAvailable e then concatenateWithFfmpeg_report e existingFiles outputPath w
         else concatenateSimple existingFiles outputPath w)"

definition concatenateAudioFiles_podcast :: "env \<Rightarrow> string list \<Rightarrow> string \<Rightarrow> unit io" where
  "concatenateAudioFiles_podcast e inputFiles outputPath w =
     (let existingFiles = filter (existsSync w) inputFiles
      in if length existingFiles = 0 then (Inl (Error ''No audio files to concatenate''), w)
         else if ffmpegAvailable e then concatenateWithFfmpeg_podcast e existingFiles outputPath w
         else concatenateSimple existingFiles outputPath w)"

section \<open>Personas, progress and results (config.ts, types.ts)\<close>

record Personality =
  pers_name :: string
  pers_alias :: string
  pers_voice :: Voice

definition personalities :: "string option \<Rightarrow> Personality option" where
  "personalities key =
     (if key = Some ''reporter'' then
        Some \<lparr>pers_name = ''Sadie Woodward'', pers_alias = ''The Story Hunter'', pers_voice = voices_sadie\<rparr>
      else if key = Some ''privateEye'' then
        Some \<lparr>pers_name = ''John Marlowe'', pers_alias = ''The Truth Seeker'', pers_voice = voices_john\<rparr>
      else if key = Some ''host1'' then
        Some \<lparr>pers_name = ''John'', pers_alias = ''The Analyst'', pers_voice = voices_john\<rparr>
      else if key = Some ''host2'' then
        Some \<lparr>pers_name = ''Sadie'', pers_alias = ''The Commentator'', pers_voice = voices_sadie\<rparr>
      else None)"

text \<open>\<open>personalities[key] || personalities.fallback\<close>.\<close>

definition personalityOr :: "string option \<Rightarrow> string \<Rightarrow> Personality" where
  "personalityOr key fallback =
     (case personalities key of Some p \<Rightarrow> p | None \<Rightarrow> the (personalities (Some fallback)))"

record GenerationProgress =
  status :: string
  message :: string
  currentStep :: "nat option"

record GenerationResult =
  success :: bool
  audioFile :: "string option"
  audioUrl :: "string option"
  title :: "string option"
  tags :: "string list option"
  error :: "string option"

record DialogueTurn =
  speaker :: "string option"
  turn_text :: string

type_synonym progress_callback = "(GenerationProgress \<Rightarrow> world \<Rightarrow> world) option"

text \<open>\<open>onProgress?.(progress)\<close>.\<close>

definition onProgress :: "progress_callback \<Rightarrow> GenerationProgress \<Rightarrow> world \<Rightarrow> world" where
  "onProgress cb p w = (case cb of None \<Rightarrow> w | Some f \<Rightarrow> f p w)"

text \<open>The element of a destructured array: \<open>const [k1, k2] = keys\<close>.\<close>

definition elementAt :: "string list \<Rightarrow> nat \<Rightarrow> string option" where
  "elementAt xs i = (if i < length xs then Some (xs ! i) else None)"

section \<open>The dialogue assembler (investigative-report.ts, podcast.ts)\<close>

record loop_state =
  dialogue :: "DialogueTurn list"
  audioFiles :: "string list"
  currentDuration :: int
  turnIndex :: nat
  currentSpeakerIndex :: nat

text \<open>One turn: the comment is generated, then synthesised into the file of its index.\<close>

definition speak :: "(env \<Rightarrow> string io) \<Rightarrow> env \<Rightarrow> string option \<Rightarrow> string \<Rightarrow> nat
    \<Rightarrow> (string \<times> string) io" where
  "speak generateComment e key outputDir idx =
     bindIO (generateComment e) (\<lambda>comment.
       bindIO (synthesizeDialogueTurn e comment key outputDir idx) (\<lambda>audio.
         returnIO (comment, audio)))"

text \<open>The body shared by the content loops: the speaker is \<open>speakers[currentSpeakerIndex % 2]\<close>.\<close>

definition contentTurn :: "(env \<Rightarrow> string io) \<Rightarrow> env \<Rightarrow> string option \<times> string option \<Rightarrow> string
    \<Rightarrow> loop_state \<Rightarrow> loop_state io" where
  "contentTurn generateComment e keys outputDir st =
     (let key = (if currentSpeakerIndex st mod 2 = 0 then fst keys else snd keys)
      in bindIO (speak generateComment e key outputDir (turnIndex st)) (\<lambda>(comment, audio).
           returnIO (st\<lparr>dialogue := dialogue st @ [\<lparr>speaker = key, turn_text = comment\<rparr>],
                        audioFiles := audioFiles st @ [audio],
                        currentDuration := currentDuration st + estimateAudioDuration comment,
                        turnIndex := turnIndex st + 1,
                        currentSpeakerIndex := currentSpeakerIndex st + 1\<rparr>)))"

text \<open>\<open>for (let j = 0; j < 2 && currentDuration < targetLengthSeconds * 0.8; j++)\<close>.\<close>

function reportGroupTurns :: "env \<Rightarrow> string option \<times> string option \<Rightarrow> string \<Rightarrow> rat \<Rightarrow> nat
    \<Rightarrow> loop_state \<Rightarrow> loop_state io" where
  "reportGroupTurns e keys outputDir target j st w =
     (if j < 2 \<and> of_int (currentDuration st) < target * 0.8 then
        (case contentTurn generateInvestigatorComment e keys outputDir st w of
           (Inl err, w') \<Rightarrow> (Inl err, w')
         | (Inr st', w') \<Rightarrow> reportGroupTurns e keys outputDir target (j + 1) st' w')
      else (Inr st, w))"
  by pat_completeness auto
termination
  by (relation "measure (\<lambda>(e, keys, outputDir, target, j, st, w). 2 - j)") auto

declare reportGroupTurns.simps [simp del]

text \<open>\<open>for (let i = 0; i < relatedGroups.length && currentDuration < targetLengthSeconds * 0.8; i++)\<close>.\<close>

function reportGroups :: "env \<Rightarrow> progress_callback \<Rightarrow> string option \<times> string option \<Rightarrow> string \<Rightarrow> rat
    \<Rightarrow> DocumentInput list list \<Rightarrow> nat \<Rightarrow> loop_state \<Rightarrow> loop_state io" where
  "reportGroups e cb keys outputDir target relatedGroups i st w =
     (if i < length relatedGroups \<and> of_int (currentDuration st) < target * 0.8 then
        (let w1 = onProgress cb
               \<lparr>status = ''analyzing'',
                message = ''Analyzing document group '' @ showNat (i + 1) @ '' of ''
                          @ showNat (length relatedGroups),
                currentStep = Some (turnIndex st)\<rparr> w
         in case reportGroupTurns e keys outputDir target 0 st w1 of
              (Inl err, w') \<Rightarrow> (Inl err, w')
            | (Inr st', w') \<Rightarrow> reportGroups e cb keys outputDir target relatedGroups (i + 1) st' w')
      else (Inr st, w))"
  by pat_completeness auto
termination
  by (relation "measure (\<lambda>(e, cb, keys, outputDir, target, relatedGroups, i, st, w).
        length relatedGroups - i)") auto

declare reportGroups.simps [simp del]

text \<open>
  \<open>while (currentDuration < targetLengthSeconds * 0.75) { ...; turnIndex++; ...;
  if (turnIndex > 20) break; }\<close>. The article in focus is \<open>articles[articleIndex]\<close>; on an
  empty list it is undefined and reading its title throws.
\<close>

definition podcastTurn :: "env \<Rightarrow> progress_callback \<Rightarrow> string option \<times> string option \<Rightarrow> string
    \<Rightarrow> Article list \<Rightarrow> loop_state \<Rightarrow> loop_state io" where
  "podcastTurn e cb keys outputDir arts st w =
     (let speakerName = (if currentSpeakerIndex st mod 2 = 0
                         then pers_name (personalityOr (fst keys) ''host1'')
                         else pers_name (personalityOr (snd keys) ''host2''));
          w1 = onProgress cb
               \<lparr>status = ''generating'', message = speakerName @ '' is speaking...'',
                currentStep = Some (turnIndex st)\<rparr> w
      in if arts = [] then
           (Inl (TypeError ''Cannot read properties of undefined (reading 'title')''), w1)
         else contentTurn generateHostComment e keys outputDir st w1)"

function podcastLoop :: "env \<Rightarrow> progress_callback \<Rightarrow> string option \<times> string option \<Rightarrow> string \<Rightarrow> rat
    \<Rightarrow> Article list \<Rightarrow> loop_state \<Rightarrow> loop_state io" where
  "podcastLoop e cb keys outputDir target arts st w =
     (if of_int (currentDuration st) < target * 0.75 then
        (case podcastTurn e cb keys outputDir arts st w of
           (Inl err, w') \<Rightarrow> (Inl err, w')
         | (Inr st', w') \<Rightarrow>
             if turnIndex st' > 20 then (Inr st', w')
             else podcastLoop e cb keys outputDir target arts st' w')
      else (Inr st, w))"
  by pat_completeness auto
termination
  apply (relation "measure (\<lambda>(e, cb, keys, outputDir, target, arts, st, w). 21 - turnIndex st)")
   apply simp
  apply (auto simp: podcastTurn_def contentTurn_def bindIO_def returnIO_def Let_def
        split: if_splits prod.splits sum.splits)
  done

declare podcastLoop.simps [simp del]

section \<open>Generating an investigative report (investigative-report.ts)\<close>

definition cachedResult :: "string \<Rightarrow> GenerationResult" where
  "cachedResult ident =
     \<lparr>success = True, audioFile = Some (ident @ ''.mp3''),
      audioUrl = Some (''/api/generate/media?id='' @ ident @ ''.mp3''),
      title = None, tags = None, error = None\<rparr>"

definition completeResult :: "string \<Rightarrow> string \<Rightarrow> string list \<Rightarrow> GenerationResult" where
  "completeResult ident t ts =
     \<lparr>success = True, audioFile = Some (ident @ ''.mp3''),
      audioUrl = Some (''/api/generate/media?id='' @ ident @ ''.mp3''),
      title = Some t, tags = Some ts, error = None\<rparr>"

definition failedResult :: "js_error \<Rightarrow> GenerationResult" where
  "failedResult err =
     \<lparr>success = False, audioFile = None, audioUrl = None, title = None, tags = None,
      error = Some (errorMessage err)\<rparr>"

text \<open>\<open>try { fs.rmSync(outputDir, { recursive: true }) } catch (e) { ... }\<close> after a
  success, and \<open>if (fs.existsSync(outputDir)) fs.rmSync(...)\<close> after a failure.\<close>

definition cleanUp :: "string \<Rightarrow> world \<Rightarrow> world" where
  "cleanUp outputDir w = snd (rmSync outputDir w)"

definition cleanUpOnError :: "string \<Rightarrow> world \<Rightarrow> world" where
  "cleanUpOnError outputDir w = (if existsSync w outputDir then snd (rmSync outputDir w) else w)"

text \<open>The body of the \<open>try\<close> block, up to the title and the tags.\<close>

definition reportBody :: "env \<Rightarrow> progress_callback \<Rightarrow> DocumentInput list \<Rightarrow> string list \<Rightarrow> rat
    \<Rightarrow> string \<Rightarrow> string \<Rightarrow> (string \<times> string list) io" where
  "reportBody e cb documents selectedInvestigators target outputDir finalOutputPath =
     (let investigator1Key = elementAt selectedInvestigators 0;
          investigator2Key = elementAt selectedInvestigators 1;
          speaker1 = personalityOr investigator1Key ''reporter'';
          speaker2 = personalityOr investigator2Key ''privateEye''
      in
      bindIO (liftIO (onProgress cb
        \<lparr>status = ''preparing'',
         message = pers_name speaker1 @ '' and '' @ pers_name speaker2 @ '' are beginning the investigation'',
         currentStep = None\<rparr>)) (\<lambda>_.
      case groupRelatedDocuments documents of (relatedGroups, unrelated) \<Rightarrow>
      bindIO (liftIO (onProgress cb
        \<lparr>status = ''generating'', message = pers_name speaker1 @ '' is setting the stage'',
         currentStep = Some 1\<rparr>)) (\<lambda>_.
      bindIO (speak generateInvestigatorComment e investigator1Key outputDir 0) (\<lambda>(openingComment, openingAudio).
      bindIO (liftIO (onProgress cb
        \<lparr>status = ''generating'', message = pers_name speaker2 @ '' is analyzing the evidence'',
         currentStep = Some 2\<rparr>)) (\<lambda>_.
      bindIO (speak generateInvestigatorComment e investigator2Key outputDir 1) (\<lambda>(initialResponse, responseAudio).
      bindIO (reportGroups e cb (investigator1Key, investigator2Key) outputDir target relatedGroups 0
        \<lparr>dialogue = [\<lparr>speaker = investigator1Key, turn_text = openingComment\<rparr>,
                     \<lparr>speaker = investigator2Key, turn_text = initialResponse\<rparr>],
         audioFiles = [openingAudio, responseAudio],
         currentDuration = 0 + estimateAudioDuration openingComment + estimateAudioDuration initialResponse,
         turnIndex = 2,
         currentSpeakerIndex = 0\<rparr>) (\<lambda>st.
      bindIO (liftIO (onProgress cb
        \<lparr>status = ''concluding'', message = pers_name speaker1 @ '' is wrapping up the investigation'',
         currentStep = None\<rparr>)) (\<lambda>_.
      bindIO (speak generateInvestigatorComment e investigator1Key outputDir (turnIndex st)) (\<lambda>(closingComment, closingAudio).
      bindIO (liftIO (onProgress cb
        \<lparr>status = ''finalizing'', message = ''Combining audio segments'', currentStep = None\<rparr>)) (\<lambda>_.
      bindIO (concatenateAudioFiles_report e (audioFiles st @ [closingAudio]) finalOutputPath) (\<lambda>_.
      bindIO (generateTitle e) (\<lambda>t.
      bindIO (generateTags e) (\<lambda>ts.
      bindIO (liftIO (cleanUp outputDir)) (\<lambda>_.
      bindIO (liftIO (onProgress cb
        \<lparr>status = ''complete'', message = ''Investigation complete'', currentStep = None\<rparr>)) (\<lambda>_.
      returnIO (t, ts))))))))))))))))"

definition generateInvestigativeReport :: "env \<Rightarrow> DocumentInput list \<Rightarrow> string \<Rightarrow> string list \<Rightarrow> rat
    \<Rightarrow> progress_callback \<Rightarrow> world \<Rightarrow> GenerationResult \<times> world" where
  "generateInvestigativeReport e documents investigation selectedInvestigators target cb w =
     (let reportId = generateReportId e documents investigation;
          outputDir = path_join (AUDIO_DIR e) reportId;
          finalOutputPath = path_join (AUDIO_DIR e) (reportId @ ''.mp3'')
      in if existsSync w finalOutputPath then (cachedResult reportId, w)
         else
           (let w1 = (if \<not> existsSync w outputDir then mkdirSync outputDir w else w)
            in case reportBody e cb documents selectedInvestigators target outputDir finalOutputPath w1 of
                 (Inr (t, ts), w2) \<Rightarrow> (completeResult reportId t ts, w2)
               | (Inl err, w2) \<Rightarrow> (failedResult err, cleanUpOnError outputDir w2)))"

section \<open>Generating a podcast (podcast.ts)\<close>

definition podcastBody :: "env \<Rightarrow> progress_callback \<Rightarrow> Article list \<Rightarrow> string list \<Rightarrow> rat
    \<Rightarrow> string \<Rightarrow> string \<Rightarrow> (string \<times> string list) io" where
  "podcastBody e cb arts hosts target outputDir finalOutputPath =
     (let host1Key = elementAt hosts 0;
          host2Key = elementAt hosts 1;
          speaker1 = personalityOr host1Key ''host1'';
          speaker2 = personalityOr host2Key ''host2''
      in
      bindIO (liftIO (onProgress cb
        \<lparr>status = ''preparing'',
         message = pers_name speaker1 @ '' and '' @ pers_name speaker2 @ '' are preparing the podcast'',
         currentStep = None\<rparr>)) (\<lambda>_.
      bindIO (liftIO (onProgress cb
        \<lparr>status = ''generating'', message = pers_name speaker1 @ '' is opening the show'',
         currentStep = Some 1\<rparr>)) (\<lambda>_.
      bindIO (speak generateHostComment e host1Key outputDir 0) (\<lambda>(openingComment, openingAudio).
      bindIO (liftIO (onProgress cb
        \<lparr>status = ''generating'', message = pers_name speaker2 @ '' is joining the conversation'',
         currentStep = Some 2\<rparr>)) (\<lambda>_.
      bindIO (speak generateHostComment e host2Key outputDir 1) (\<lambda>(initialResponse, responseAudio).
      bindIO (podcastLoop e cb (host1Key, host2Key) outputDir target arts
        \<lparr>dialogue = [\<lparr>speaker = host1Key, turn_text = openingComment\<rparr>,
                     \<lparr>speaker = host2Key, turn_text = initialResponse\<rparr>],
         audioFiles = [openingAudio, responseAudio],
         currentDuration = 0 + estimateAudioDuration openingComment + estimateAudioDuration initialResponse,
         turnIndex = 2,
         currentSpeakerIndex = 0\<rparr>) (\<lambda>st.
      bindIO (liftIO (onProgress cb
        \<lparr>status = ''concluding'', message = pers_name speaker1 @ '' is wrapping up'',
         currentStep = None\<rparr>)) (\<lambda>_.
      bindIO (speak generateHostComment e host1Key outputDir (turnIndex st)) (\<lambda>(closingComment, closingAudio).
      bindIO (liftIO (onProgress cb
        \<lparr>status = ''finalizing'', message = ''Combining audio segments'', currentStep = None\<rparr>)) (\<lambda>_.
      bindIO (concatenateAudioFiles_podcast e (audioFiles st @ [closingAudio]) finalOutputPath) (\<lambda>_.
      bindIO (generateTitle e) (\<lambda>t.
      bindIO (generateTags e) (\<lambda>ts.
      bindIO (liftIO (cleanUp outputDir)) (\<lambda>_.
      bindIO (liftIO (onProgress cb
        \<lparr>status = ''complete'', message = ''Podcast complete'', currentStep = None\<rparr>)) (\<lambda>_.
      returnIO (t, ts))))))))))))))))"

definition generatePodcast :: "env \<Rightarrow> PodcastRequest \<Rightarrow> progress_callback \<Rightarrow> world
    \<Rightarrow> GenerationResult \<times> world" where
  "generatePodcast e request cb w =
     (let hosts = (case selectedHosts request of None \<Rightarrow> [''host1'', ''host2''] | Some h \<Rightarrow> h);
          target = (case targetLengthSeconds request of None \<Rightarrow> 300 | Some t \<Rightarrow> t);
          podcastId = generatePodcastId e (articles request) hosts;
          outputDir = path_join (AUDIO_DIR e) podcastId;
          finalOutputPath = path_join (AUDIO_DIR e) (podcastId @ ''.mp3'')
      in if existsSync w finalOutputPath then (cachedResult podcastId, w)
         else
           (let w1 = (if \<not> existsSync w outputDir then mkdirSync outputDir w else w)
            in case podcastBody e cb (articles request) hosts target outputDir finalOutputPath w1 of
                 (Inr (t, ts), w2) \<Rightarrow> (completeResult podcastId t ts, w2)
               | (Inl err, w2) \<Rightarrow> (failedResult err, cleanUpOnError outputDir w2)))"

section \<open>The report endpoint (api/generate/investigative-report/route.ts)\<close>










section \<open>Concrete environments and states for the examples\<close>

text \<open>The digest of the example environment is a stand-in, not SHA-256: no example
  depends on the value of a digest.\<close>

definition exampleEnv :: env where
  "exampleEnv =
     \<lparr>cwd = ''/app'', XAI_API_KEY = Some ''xai-key'', ELEVENLABS_API_KEY = Some ''el-key'',
      chatFetch = (\<lambda>n. ChatResponse 200 [] (ChatJson (Some ''ok''))),
      ttsFetch = (\<lambda>n. TtsResponse 200 ''mp3''),
      ffmpegAvailable = False,
      ffmpegRun = (\<lambda>inputs. ExitFailure []),
      sha256hex = (\<lambda>s. replicate 64 CHR ''0'')\<rparr>"

definition exampleWorld :: world where
  "exampleWorld =
     \<lparr>fs = [''/app'' \<mapsto> Dir, ''/app/generated-audio'' \<mapsto> Dir],
      chatCalls = 0, ttsLog = [], stream = [], streamClosed = False\<rparr>"

text \<open>The replies of the chat-completion service on which \<open>generateText\<close> throws: the
  request is rejected, the status is not a success, the body is not JSON, or the text at
  \<open>choices[0].message.content\<close> is missing or empty.\<close>

definition chatFails :: "env \<Rightarrow> nat \<Rightarrow> bool" where
  "chatFails e n =
     (case chatFetch e n of
        ChatRejected msg \<Rightarrow> True
      | ChatResponse code errorText data \<Rightarrow>
          (if response_ok code
           then (case data of NotJson \<Rightarrow> True | ChatJson content \<Rightarrow> if truthy content then False else True)
           else True))"

definition emptyContentEnv :: env where
  "emptyContentEnv = exampleEnv\<lparr>chatFetch := (\<lambda>n. ChatResponse 200 [] (ChatJson (Some [])))\<rparr>"

definition exampleDocuments :: "DocumentInput list" where
  "exampleDocuments =
     [\<lparr>documentId = Some ''doc-1'', url = None, names = Some [''Oswald''], dates = None, places = Some [''Dallas'']\<rparr>,
      \<lparr>documentId = Some ''doc-2'', url = None, names = None, dates = None, places = Some [''Dallas'']\<rparr>]"

definition exampleRequest :: PodcastRequest where
  "exampleRequest =
     \<lparr>articles = [\<lparr>art_id = Some ''a1'', art_title = Some ''Title'', art_url = None\<rparr>],
      selectedHosts = None, targetLengthSeconds = Some 60\<rparr>"

definition cachedWorld :: world where
  "cachedWorld = exampleWorld\<lparr>fs := (fs exampleWorld)
     (path_join (AUDIO_DIR exampleEnv) (generateReportId exampleEnv exampleDocuments ''JFK'' @ ''.mp3'') \<mapsto> File ''ID3'',
      path_join (AUDIO_DIR exampleEnv) (generatePodcastId exampleEnv (articles exampleRequest) [''host1'', ''host2''] @ ''.mp3'')
        \<mapsto> File ''ID3'')\<rparr>"








text \<open>The invariant of the outer loop of \<open>groupRelatedDocuments\<close>: no identifier occurs twice
  in the groups, every grouped identifier is marked as used, and every group has at least
  two documents.\<close>

definition groupsInv :: "string option set \<Rightarrow> DocumentInput list list \<Rightarrow> bool" where
  "groupsInv used groups =
     (distinct (map documentId (concat groups))
      \<and> documentId ` set (concat groups) \<subseteq> used
      \<and> list_all (\<lambda>g. 2 \<le> length g) groups)"

text \<open>A segment that \<open>normalize\<close> keeps as it is, and the absolute path made of such
  segments: \<open>absolutePath ['app', 'generated-audio']\<close> is \<open>/app/generated-audio\<close>.\<close>

definition properSegment :: "string \<Rightarrow> bool" where
  "properSegment s = (s \<noteq> [] \<and> CHR ''/'' \<notin> set s \<and> s \<noteq> ''.'' \<and> s \<noteq> ''..'')"

definition absolutePath :: "string list \<Rightarrow> string" where
  "absolutePath segs = concat (map (\<lambda>s. CHR ''/'' # s) segs)"







section \<open>The estimated duration is a ceiling\<close>






section \<open>When text generation fails\<close>

text \<open>
  C7 (as amended). \<open>generateText\<close> raises exactly when the credential is absent or empty, or
  the single request is rejected, or answered with a status outside 200..299, or with a
  body that is not JSON, or with a missing or empty assistant text. Otherwise it returns
  the assistant text. At most one request is sent: there is no retry.
\<close>

theorem generateText_raises_iff:
  "(\<exists>err. fst (generateText e w) = Inl err)
     = (if truthy (XAI_API_KEY e) then chatFails e (chatCalls w) else True)
   \<and> ((\<forall>err. fst (generateText e w) \<noteq> Inl err)
        \<longrightarrow> (\<exists>code errorText content.
              chatFetch e (chatCalls w) = ChatResponse code errorText (ChatJson (Some content))
              \<and> generateText e w = (Inr content, w\<lparr>chatCalls := Suc (chatCalls w)\<rparr>)))
   \<and> chatCalls (snd (generateText e w)) \<le> Suc (chatCalls w)"
  by (auto simp: generateText_def chatFails_def truthy_def Let_def
      split: option.splits chat_reply.splits chat_body.splits if_splits)

theorem generateText_raises_iff_witness:
  "truthy (XAI_API_KEY exampleEnv) \<and> \<not> chatFails exampleEnv (chatCalls exampleWorld)
   \<and> generateText exampleEnv exampleWorld = (Inr ''ok'', exampleWorld\<lparr>chatCalls := 1\<rparr>)"
  using generateText_raises_iff [of exampleEnv exampleWorld]
  by (auto simp: exampleEnv_def exampleWorld_def truthy_def chatFails_def response_ok_def)

text \<open>
  C7 as stated fails: with the credential present and a 200 response whose assistant text
  is present but empty, \<open>generateText\<close> raises.
\<close>

theorem generateText_counterexample:
  "XAI_API_KEY emptyContentEnv = Some ''xai-key''
   \<and> chatFetch emptyContentEnv (chatCalls exampleWorld) = ChatResponse 200 [] (ChatJson (Some []))
   \<and> response_ok 200
   \<and> fst (generateText emptyContentEnv exampleWorld) = Inl (Error ''Invalid response from Grok API'')"
  by (simp add: generateText_def emptyContentEnv_def exampleEnv_def exampleWorld_def response_ok_def)

section \<open>Long turns are truncated before synthesis\<close>

lemma writeFileSync_ttsLog: "writeFileSync p b w = (r, w') \<Longrightarrow> ttsLog w' = ttsLog w"
  by (auto simp: writeFileSync_def split: option.splits fsnode.splits)

lemma synthesizeSpeech_request:
  assumes "truthy (ELEVENLABS_API_KEY e)"
  shows "\<exists>request. ttsLog (snd (synthesizeSpeech e t v p w)) = ttsLog w @ [request]
           \<and> req_text request = t \<and> req_voiceId request = voiceId v"
proof -
  from assms obtain k where k: "ELEVENLABS_API_KEY e = Some k" "k \<noteq> []"
    by (auto simp: truthy_def split: option.splits)
  define w1 where "w1 = (if \<not> existsSync w (path_dirname p) then mkdirSync (path_dirname p) w else w)"
  have l1: "ttsLog w1 = ttsLog w" by (simp add: w1_def mkdirSync_def)
  show ?thesis
  proof (cases "ttsFetch e (length (ttsLog w))")
    case (TtsRejected m)
    then show ?thesis using k l1
      by (simp add: synthesizeSpeech_def Let_def w1_def[symmetric])
  next
    case (TtsResponse code buf)
    then show ?thesis using k l1
      by (auto simp: synthesizeSpeech_def Let_def w1_def[symmetric] split: prod.splits sum.splits
          dest!: writeFileSync_ttsLog)
  qed
qed

text \<open>
  C9. \<open>synthesizeDialogueTurn\<close> behaves on a text as on its first 5000 characters; with the
  credential configured it sends exactly one synthesis request, whose text is the whole
  text when it has at most 5000 characters and its first 5000 characters otherwise
  (nothing is chunked and rejoined).
\<close>

theorem synthesizeDialogueTurn_truncates:
  "synthesizeDialogueTurn e spoken speakerId outputDir idx w
     = synthesizeDialogueTurn e (take 5000 spoken) speakerId outputDir idx w
   \<and> (truthy (ELEVENLABS_API_KEY e) \<longrightarrow>
        (\<exists>request. ttsLog (snd (synthesizeDialogueTurn e spoken speakerId outputDir idx w)) = ttsLog w @ [request]
           \<and> req_text request = (if length spoken \<le> 5000 then spoken else take 5000 spoken)))"
proof (intro conjI impI)
  show "synthesizeDialogueTurn e spoken speakerId outputDir idx w
     = synthesizeDialogueTurn e (take 5000 spoken) speakerId outputDir idx w"
    by (simp add: synthesizeDialogueTurn_def Let_def)
next
  assume hasKey: "truthy (ELEVENLABS_API_KEY e)"
  show "\<exists>request. ttsLog (snd (synthesizeDialogueTurn e spoken speakerId outputDir idx w)) = ttsLog w @ [request]
           \<and> req_text request = (if length spoken \<le> 5000 then spoken else take 5000 spoken)"
  proof (cases "length spoken \<le> 5000")
    case True
    then show ?thesis using synthesizeSpeech_request[OF hasKey, of spoken]
      by (simp add: synthesizeDialogueTurn_def Let_def) blast
  next
    case False
    then show ?thesis using synthesizeSpeech_request[OF hasKey, of "take 5000 spoken"]
      by (simp add: synthesizeDialogueTurn_def Let_def) blast
  qed
qed

theorem synthesizeDialogueTurn_truncates_witness:
  "truthy (ELEVENLABS_API_KEY exampleEnv)
   \<and> (\<exists>request. ttsLog (snd (synthesizeDialogueTurn exampleEnv (replicate 5001 CHR ''a'') (Some ''host1'')
                  ''/app/generated-audio/x'' 2 exampleWorld)) = [request]
         \<and> req_text request = replicate 5000 CHR ''a'')"
proof -
  have hasKey: "truthy (ELEVENLABS_API_KEY exampleEnv)"
    by (simp add: exampleEnv_def truthy_def)
  from synthesizeDialogueTurn_truncates [of exampleEnv "replicate 5001 CHR ''a''" "Some ''host1''"
      "''/app/generated-audio/x''" 2 exampleWorld] hasKey
  obtain request where
    "ttsLog (snd (synthesizeDialogueTurn exampleEnv (replicate 5001 CHR ''a'') (Some ''host1'')
        ''/app/generated-audio/x'' 2 exampleWorld)) = ttsLog exampleWorld @ [request]"
    "req_text request = (if length (replicate 5001 CHR ''a'') \<le> 5000
        then replicate 5001 CHR ''a'' else take 5000 (replicate 5001 CHR ''a''))"
    by blast
  then have "ttsLog (snd (synthesizeDialogueTurn exampleEnv (replicate 5001 CHR ''a'') (Some ''host1'')
        ''/app/generated-audio/x'' 2 exampleWorld)) = [request]
      \<and> req_text request = replicate 5000 CHR ''a''"
    by (simp add: exampleWorld_def)
  with hasKey show ?thesis by blast
qed

section \<open>An existing output is returned without generating\<close>

text \<open>
  C1. When the file \<open><id>.mp3\<close> of the content-derived identifier exists in the audio
  directory, \<open>generateInvestigativeReport\<close> and \<open>generatePodcast\<close> return at once with
  \<open>success = true\<close>, \<open>audioFile = <id>.mp3\<close> and the media URL of that file, and leave the
  state as it was: no text-generation request, no synthesis request, no progress event
  and no temporary directory.
\<close>

theorem cache_hit_returns_existing_file:
  "(existsSync w (path_join (AUDIO_DIR e) (generateReportId e documents investigation @ ''.mp3''))
      \<longrightarrow> generateInvestigativeReport e documents investigation selectedInvestigators target cb w
          = (\<lparr>success = True,
               audioFile = Some (generateReportId e documents investigation @ ''.mp3''),
               audioUrl = Some (''/api/generate/media?id='' @ generateReportId e documents investigation @ ''.mp3''),
               title = None, tags = None, error = None\<rparr>, w))
   \<and> (existsSync w (path_join (AUDIO_DIR e)
          (generatePodcastId e (articles request)
             (case selectedHosts request of None \<Rightarrow> [''host1'', ''host2''] | Some h \<Rightarrow> h) @ ''.mp3''))
      \<longrightarrow> generatePodcast e request cb w
          = (\<lparr>success = True,
               audioFile = Some (generatePodcastId e (articles request)
                  (case selectedHosts request of None \<Rightarrow> [''host1'', ''host2''] | Some h \<Rightarrow> h) @ ''.mp3''),
               audioUrl = Some (''/api/generate/media?id='' @ generatePodcastId e (articles request)
                  (case selectedHosts request of None \<Rightarrow> [''host1'', ''host2''] | Some h \<Rightarrow> h) @ ''.mp3''),
               title = None, tags = None, error = None\<rparr>, w))"
  by (simp add: generateInvestigativeReport_def generatePodcast_def cachedResult_def Let_def)

theorem cache_hit_returns_existing_file_witness:
  "existsSync cachedWorld
      (path_join (AUDIO_DIR exampleEnv) (generateReportId exampleEnv exampleDocuments ''JFK'' @ ''.mp3''))
   \<and> snd (generateInvestigativeReport exampleEnv exampleDocuments ''JFK'' [''reporter'', ''privateEye''] 300 None
           cachedWorld) = cachedWorld
   \<and> success (fst (generateInvestigativeReport exampleEnv exampleDocuments ''JFK'' [''reporter'', ''privateEye''] 300
           None cachedWorld))
   \<and> existsSync cachedWorld
      (path_join (AUDIO_DIR exampleEnv)
         (generatePodcastId exampleEnv (articles exampleRequest) [''host1'', ''host2''] @ ''.mp3''))
   \<and> snd (generatePodcast exampleEnv exampleRequest None cachedWorld) = cachedWorld
   \<and> success (fst (generatePodcast exampleEnv exampleRequest None cachedWorld))"
proof -
  have r: "existsSync cachedWorld
      (path_join (AUDIO_DIR exampleEnv) (generateReportId exampleEnv exampleDocuments ''JFK'' @ ''.mp3''))"
    by (simp add: existsSync_def cachedWorld_def)
  have h: "selectedHosts exampleRequest = None" by (simp add: exampleRequest_def)
  have p: "existsSync cachedWorld
      (path_join (AUDIO_DIR exampleEnv)
         (generatePodcastId exampleEnv (articles exampleRequest) [''host1'', ''host2''] @ ''.mp3''))"
    by (simp add: existsSync_def cachedWorld_def)
  from cache_hit_returns_existing_file [of cachedWorld exampleEnv exampleDocuments "''JFK''"
      "[''reporter'', ''privateEye'']" 300 None exampleRequest] r p h
  show ?thesis by simp
qed

section \<open>The report endpoint validates the documents first\<close>




section \<open>The content-derived identifier\<close>




section \<open>Concatenation skips missing files\<close>






section \<open>Grouping marks every document as used\<close>

lemma groupInner_adds:
  "groupInner doc others (grp, used) = (grp', used') \<Longrightarrow>
     \<exists>new. grp' = grp @ new \<and> used' = used \<union> documentId ` set new
        \<and> documentId ` set new \<inter> used = {} \<and> distinct (map documentId new)"
proof (induction others arbitrary: grp used)
  case Nil
  then show ?case by simp
next
  case (Cons otherDoc rest)
  show ?case
  proof (cases "documentId otherDoc \<in> used")
    case True
    with Cons show ?thesis by simp
  next
    case notUsed: False
    show ?thesis
    proof (cases "hasOverlap doc otherDoc")
      case True
      with notUsed Cons.prems
      have "groupInner doc rest (grp @ [otherDoc], insert (documentId otherDoc) used) = (grp', used')"
        by simp
      from Cons.IH[OF this] obtain new where new:
        "grp' = (grp @ [otherDoc]) @ new"
        "used' = insert (documentId otherDoc) used \<union> documentId ` set new"
        "documentId ` set new \<inter> insert (documentId otherDoc) used = {}"
        "distinct (map documentId new)" by blast
      have "grp' = grp @ (otherDoc # new)" using new(1) by simp
      moreover have "used' = used \<union> documentId ` set (otherDoc # new)" using new(2) by auto
      moreover have "documentId ` set (otherDoc # new) \<inter> used = {}" using new(3) notUsed by auto
      moreover have "distinct (map documentId (otherDoc # new))" using new(3,4) by auto
      ultimately show ?thesis by blast
    next
      case False
      with notUsed Cons show ?thesis by simp
    qed
  qed
qed

lemma groupOuter_inv:
  "groupOuter docArray rest (used, groups) = (used', groups') \<Longrightarrow> groupsInv used groups \<Longrightarrow>
     groupsInv used' groups' \<and> used \<subseteq> used' \<and> documentId ` set rest \<subseteq> used'"
proof (induction rest arbitrary: used groups)
  case Nil
  then show ?case by simp
next
  case (Cons doc rest)
  show ?case
  proof (cases "documentId doc \<in> used")
    case True
    with Cons.prems have "groupOuter docArray rest (used, groups) = (used', groups')" by simp
    from Cons.IH[OF this Cons.prems(2)] True show ?thesis by auto
  next
    case notUsed: False
    obtain grp used1 where inner:
      "groupInner doc docArray ([doc], insert (documentId doc) used) = (grp, used1)"
      by (cases "groupInner doc docArray ([doc], insert (documentId doc) used)") auto
    from groupInner_adds[OF inner] obtain new where new:
      "grp = [doc] @ new" "used1 = insert (documentId doc) used \<union> documentId ` set new"
      "documentId ` set new \<inter> insert (documentId doc) used = {}" "distinct (map documentId new)"
      by blast
    let ?groups1 = "if length grp > 1 then groups @ [grp] else groups"
    from Cons.prems(1) notUsed inner
    have rec: "groupOuter docArray rest (used1, ?groups1) = (used', groups')" by simp
    have dg: "distinct (map documentId grp)" using new by auto
    have gu: "documentId ` set grp \<inter> used = {}" using new notUsed by auto
    have gs: "documentId ` set grp \<subseteq> used1" using new by auto
    have uu: "used \<subseteq> used1" using new by auto
    from Cons.prems(2) have old: "distinct (map documentId (concat groups))"
      "documentId ` set (concat groups) \<subseteq> used" "list_all (\<lambda>g. 2 \<le> length g) groups"
      by (simp_all add: groupsInv_def)
    have inv1: "groupsInv used1 ?groups1"
    proof (cases "length grp > 1")
      case True
      have "distinct (map documentId (concat (groups @ [grp])))"
        using old(1,2) dg gu by auto
      moreover have "documentId ` set (concat (groups @ [grp])) \<subseteq> used1"
        using old(2) gs uu by auto
      moreover have "list_all (\<lambda>g. 2 \<le> length g) (groups @ [grp])"
        using old(3) True by simp
      ultimately show ?thesis using True by (simp add: groupsInv_def)
    next
      case False
      then show ?thesis using old uu by (auto simp: groupsInv_def)
    qed
    from Cons.IH[OF rec inv1] have
      "groupsInv used' groups'" "used1 \<subseteq> used'" "documentId ` set rest \<subseteq> used'" by simp_all
    moreover have "documentId doc \<in> used1" using new by simp
    ultimately show ?thesis using uu by auto
  qed
qed

text \<open>
  C10. For every list of documents the returned \<open>unrelated\<close> list is empty; no document
  identifier, and no document, occurs twice in the concatenation of the returned groups,
  so the groups are pairwise disjoint; and every group has at least two documents, with
  pairwise different identifiers.
\<close>

theorem groupRelatedDocuments_groups:
  "snd (groupRelatedDocuments documents) = []
   \<and> distinct (map documentId (concat (fst (groupRelatedDocuments documents))))
   \<and> distinct (concat (fst (groupRelatedDocuments documents)))
   \<and> list_all (\<lambda>g. 2 \<le> length g \<and> distinct (map documentId g)) (fst (groupRelatedDocuments documents))"
proof -
  let ?docArray = "map snd (uniqueDocs documents)"
  obtain used groups where outer: "groupOuter ?docArray ?docArray ({}, []) = (used, groups)"
    by (cases "groupOuter ?docArray ?docArray ({}, [])") auto
  have "groupsInv {} []" by (simp add: groupsInv_def)
  from groupOuter_inv[OF outer this]
  have inv: "groupsInv used groups" and all: "documentId ` set ?docArray \<subseteq> used" by simp_all
  have res: "groupRelatedDocuments documents = (groups, filter (\<lambda>d. documentId d \<notin> used) ?docArray)"
    by (simp add: groupRelatedDocuments_def Let_def outer)
  have u: "filter (\<lambda>d. documentId d \<notin> used) ?docArray = []"
    using all by (auto simp: filter_empty_conv)
  from inv have d: "distinct (map documentId (concat groups))"
    and l: "list_all (\<lambda>g. 2 \<le> length g) groups" by (simp_all add: groupsInv_def)
  from d have dc: "distinct (concat groups)" by (simp add: distinct_map)
  have "\<forall>g \<in> set groups. distinct (map documentId g)"
  proof
    fix g assume "g \<in> set groups"
    then obtain a b where "groups = a @ g # b" by (auto simp: in_set_conv_decomp)
    with d show "distinct (map documentId g)" by simp
  qed
  with l have l2: "list_all (\<lambda>g. 2 \<le> length g \<and> distinct (map documentId g)) groups"
    by (simp add: list_all_iff)
  from res u d dc l2 show ?thesis by simp
qed

lemma groupRelatedDocuments_example:
  "groupRelatedDocuments exampleDocuments = ([exampleDocuments], [])"
  by (simp add: groupRelatedDocuments_def uniqueDocs_def exampleDocuments_def truthy_def hasOverlap_def
      someIncluded_def Let_def)

section \<open>Paths made of proper segments\<close>

lemma splitOn_nonempty: "splitOn c s \<noteq> []"
  by (induction s) (auto split: list.splits)



lemma absolutePath_Cons: "absolutePath (s # segs) = CHR ''/'' # s @ absolutePath segs"
  by (simp add: absolutePath_def)





















lemma path_dirname_path:
  assumes "segs \<noteq> []" "list_all properSegment segs" "properSegment f"
  shows "path_dirname (absolutePath segs @ ''/'' @ f) = absolutePath segs"
proof -
  obtain t where A: "absolutePath segs = CHR ''/'' # t" "t \<noteq> []"
  proof -
    from assms(1) obtain s ss where "segs = s # ss" by (cases segs) auto
    moreover from this assms(2) have "s \<noteq> []" by (simp add: properSegment_def)
    ultimately show ?thesis using that[of "s @ absolutePath ss"] by (simp add: absolutePath_Cons)
  qed
  from assms(3) have f: "f \<noteq> []" "CHR ''/'' \<notin> set f" by (simp_all add: properSegment_def)
  then have hdf: "hd (rev f) \<noteq> CHR ''/''" by (metis hd_rev last_in_set)
  have d1: "dropWhile (\<lambda>c. c = CHR ''/'') (rev f @ CHR ''/'' # rev t) = rev f @ CHR ''/'' # rev t"
    using f hdf by (cases "rev f") auto
  have d2: "dropWhile (\<lambda>c. c \<noteq> CHR ''/'') (rev f @ CHR ''/'' # rev t) = CHR ''/'' # rev t"
    using f by (simp add: dropWhile_append)
  show ?thesis using A by (simp add: path_dirname_def Let_def d1 d2)
qed



section \<open>The media endpoint serves from the audio directory only\<close>













section \<open>The content loops\<close>














end
